theory Spec2Isabelle
  imports Main
begin

section \<open>The DISCO operation monitor (\<^verbatim>\<open>DISCOCheck\<close> in \<^verbatim>\<open>disco.py\<close>)\<close>

text \<open>
  The driver starts a snapshot, restore or clone on the DISCO backend and then polls the
  backend for the state of that operation. The polling is the class \<^verbatim>\<open>DISCOCheck\<close>:
  \<^verbatim>\<open>_monitor_request\<close> hands \<^verbatim>\<open>_retry_get_detail\<close> to a fixed-interval timer, and each
  run of \<^verbatim>\<open>_retry_get_detail\<close> makes one status query, reads the reply and either ends
  the timer with the reply, raises, or returns so that the timer runs it again.
\<close>

subsection \<open>Values on the wire\<close>

text \<open>
  \<^verbatim>\<open>DISCO_CODE_MAPPING\<close>: the three item states of the backend.
\<close>

definition request_success :: int where
  "request_success = 1"

definition request_ongoing :: int where
  "request_ongoing = 2"

definition request_failure :: int where
  "request_failure = 3"

text \<open>
  A reply of the client is \<^verbatim>\<open>None\<close> or a dictionary. The fields the monitor reads are
  \<^verbatim>\<open>reply['status']\<close> (the transport status, a number), \<^verbatim>\<open>reply['result']\<close> (a number for
  \<^verbatim>\<open>cloneDetail\<close>), and the nested dictionaries \<^verbatim>\<open>reply['snapshotInfoResult']\<close> and
  \<^verbatim>\<open>reply['restoreInfoResult']\<close>, read at their key \<^verbatim>\<open>'status'\<close>. Numeric fields are
  modelled at their wire type, Python's unbounded integers; a key that a reply does not
  have is \<open>None\<close> here and a \<^verbatim>\<open>KeyError\<close> where the code subscripts it. \<^verbatim>\<open>int(x)\<close> of a
  number is the number itself.
\<close>

type_synonym info_result = "string \<rightharpoonup> int"

record reply =
  status :: int
  result :: "int option"
  snapshotInfoResult :: "info_result option"
  restoreInfoResult :: "info_result option"

text \<open>
  The parameters of an operation are a dictionary from names to identifiers (numbers) and
  volume names (strings).
\<close>

datatype param = PInt int | PStr string

type_synonym params = "string \<rightharpoonup> param"

text \<open>
  The three status queries of the client, with their arguments. The client itself is the
  remote backend: its reply to a query depends on the query and on how many queries came
  before it, and nothing else is assumed of it.
\<close>

datatype api_call =
    snapshotDetail param
  | restoreDetail param
  | cloneDetail param param

type_synonym client = "nat \<Rightarrow> api_call \<Rightarrow> reply option"

text \<open>
  What the code raises. \<^verbatim>\<open>VolumeBackendAPIException(data=msg)\<close> carries its message, which
  is a formatted string or, for an unknown operation, the pair of the format and the
  operation (the code builds a tuple there and never applies the format). \<^verbatim>\<open>TypeError\<close> and
  \<^verbatim>\<open>KeyError\<close> are Python's own, from subscripting \<^verbatim>\<open>None\<close> and from a missing key.
\<close>

datatype exn_data = Msg string | MsgTuple string string

datatype error =
    VolumeBackendAPIException exn_data
  | TypeError
  | KeyError string

subsection \<open>Formatting\<close>

text \<open>
  \<^verbatim>\<open>six.text_type(status)\<close> of an integer: its decimal digits, with a minus sign when it is
  negative.
\<close>

fun str_nat :: "nat \<Rightarrow> string" where
  "str_nat n =
     (if n < 10 then [''0123456789'' ! n]
      else str_nat (n div 10) @ [''0123456789'' ! (n mod 10)])"

declare str_nat.simps [simp del]

definition text_type :: "int \<Rightarrow> string" where
  "text_type i = (if i < 0 then CHR ''-'' # str_nat (nat (- i)) else str_nat (nat i))"

text \<open>
  The two messages that \<^verbatim>\<open>_retry_get_detail\<close> formats.
\<close>

definition detail_error_msg :: "string \<Rightarrow> int \<Rightarrow> string" where
  "detail_error_msg operation st =
     ''Error while getting '' @ operation @ '' details, returned code: '' @ text_type st @ ''.''"

definition timeout_msg :: "string \<Rightarrow> string" where
  "timeout_msg operation = ''Timeout while calling '' @ operation @ '' ''"

subsection \<open>The class \<^verbatim>\<open>DISCOCheck\<close>\<close>

text \<open>
  The fields set by \<^verbatim>\<open>__init__\<close>. The field \<^verbatim>\<open>function\<close> holds the name of the operation;
  it is \<open>func\<close> here.
\<close>

record DISCOCheck =
  start_time :: int
  func :: string
  client :: client
  param :: params

text \<open>
  \<^verbatim>\<open>is_timeout\<close>: \<open>current_time\<close> is the value of \<^verbatim>\<open>int(time.time())\<close> that the method reads.
\<close>

definition is_timeout :: "int \<Rightarrow> int \<Rightarrow> int \<Rightarrow> bool" where
  "is_timeout current_time start_time' timeout = (current_time - start_time' > timeout)"

text \<open>
  \<^verbatim>\<open>_call_api\<close>: the query of the operation, on the client. The number \<open>n\<close> counts the
  queries made so far; a query that is made returns the client's reply with \<open>n + 1\<close>, and
  an exception raised before the query leaves \<open>n\<close> as it is.
\<close>

definition call_api :: "client \<Rightarrow> string \<Rightarrow> params \<Rightarrow> nat \<Rightarrow> (error + reply option) \<times> nat" where
  "call_api cl operation ps n =
     (if operation = ''snapshot_detail'' then
        (case ps ''snapshot_id'' of
           None \<Rightarrow> (Inl (KeyError ''snapshot_id''), n)
         | Some sid \<Rightarrow> (Inr (cl n (snapshotDetail sid)), Suc n))
      else if operation = ''restore_detail'' then
        (case ps ''restore_id'' of
           None \<Rightarrow> (Inl (KeyError ''restore_id''), n)
         | Some rid \<Rightarrow> (Inr (cl n (restoreDetail rid)), Suc n))
      else if operation = ''clone_detail'' then
        (case ps ''clone_id'' of
           None \<Rightarrow> (Inl (KeyError ''clone_id''), n)
         | Some cid \<Rightarrow>
             (case ps ''vol_name'' of
                None \<Rightarrow> (Inl (KeyError ''vol_name''), n)
              | Some vn \<Rightarrow> (Inr (cl n (cloneDetail cid vn)), Suc n)))
      else (Inl (VolumeBackendAPIException (MsgTuple ''Unknown operation %s.'' operation)), n))"

text \<open>
  \<^verbatim>\<open>_get_item_status\<close>: the item status of a reply, by operation.
\<close>

definition get_item_status :: "string \<Rightarrow> reply option \<Rightarrow> error + int" where
  "get_item_status operation rep =
     (case rep of
        None \<Rightarrow> Inl (VolumeBackendAPIException (Msg ''Call returned a None object''))
      | Some r \<Rightarrow>
          if operation = ''snapshot_detail'' then
            (case snapshotInfoResult r of
               None \<Rightarrow> Inl (KeyError ''snapshotInfoResult'')
             | Some d \<Rightarrow> (case d ''status'' of None \<Rightarrow> Inl (KeyError ''status'') | Some s \<Rightarrow> Inr s))
          else if operation = ''restore_detail'' then
            (case restoreInfoResult r of
               None \<Rightarrow> Inl (KeyError ''restoreInfoResult'')
             | Some d \<Rightarrow> (case d ''status'' of None \<Rightarrow> Inl (KeyError ''status'') | Some s \<Rightarrow> Inr s))
          else if operation = ''clone_detail'' then
            (case result r of None \<Rightarrow> Inl (KeyError ''result'') | Some v \<Rightarrow> Inr v)
          else Inl (VolumeBackendAPIException (MsgTuple ''Unknown operation %s.'' operation)))"

text \<open>
  One run of \<^verbatim>\<open>_retry_get_detail\<close> ends in one of three ways: it returns (the timer will
  run it again), it raises \<^verbatim>\<open>LoopingCallDone(retvalue=reply)\<close>, or it raises an error.
\<close>

datatype step = Continue | LoopingCallDone reply | Raised error

text \<open>
  \<^verbatim>\<open>_retry_get_detail\<close>. \<open>current_time\<close> is what \<^verbatim>\<open>int(time.time())\<close> gives in this run; the
  code reads it only in the last branch. The code subscripts the reply
  (\<^verbatim>\<open>reply['status']\<close>) right after the query, which is a \<^verbatim>\<open>TypeError\<close> when the reply is
  \<^verbatim>\<open>None\<close>; a condition \<^verbatim>\<open>if status:\<close> on a number holds when the number is not 0. The message
  \<open>msg\<close> is formatted before the status is tested and is used for both errors.
\<close>

definition retry_get_detail ::
  "client \<Rightarrow> int \<Rightarrow> int \<Rightarrow> int \<Rightarrow> string \<Rightarrow> params \<Rightarrow> nat \<Rightarrow> step \<times> nat" where
  "retry_get_detail cl current_time start_time' timeout operation ps n =
     (case call_api cl operation ps n of
        (Inl e, n') \<Rightarrow> (Raised e, n')
      | (Inr rep, n') \<Rightarrow>
          (case rep of
             None \<Rightarrow> (Raised TypeError, n')
           | Some r \<Rightarrow>
               let msg = detail_error_msg operation (status r) in
               if status r \<noteq> 0 then (Raised (VolumeBackendAPIException (Msg msg)), n')
               else
                 (case get_item_status operation rep of
                    Inl e \<Rightarrow> (Raised e, n')
                  | Inr item_status \<Rightarrow>
                      if item_status = request_failure then
                        (Raised (VolumeBackendAPIException (Msg msg)), n')
                      else if item_status = request_success then (LoopingCallDone r, n')
                      else if is_timeout current_time start_time' timeout then
                        (Raised (VolumeBackendAPIException (Msg (timeout_msg operation))), n')
                      else (Continue, n'))))"

text \<open>
  Modelled from the spec: the timer,
  \<^verbatim>\<open>loopingcall.FixedIntervalLoopingCall(f, ...).start(interval).wait()\<close>, is code of the
  library \<^verbatim>\<open>oslo_service\<close> and not among the sources. The specification describes it as a
  fixed-interval timer with a done signal raised from inside the callback, and its loop
  as: query; abort at once on an error; return the reply and end on Success; go on
  otherwise. So the timer runs \<open>f\<close>; when \<open>f\<close> returns it sleeps and runs \<open>f\<close> again;
  \<^verbatim>\<open>LoopingCallDone\<close> ends it and \<^verbatim>\<open>wait\<close> returns the value; any other exception ends it and
  \<^verbatim>\<open>wait\<close> raises that exception. Nothing bounds the number of runs, so the result is an
  option: \<open>None\<close> is the timer that never ends.
\<close>

partial_function (option) looping_call :: "(nat \<Rightarrow> step \<times> nat) \<Rightarrow> nat \<Rightarrow> ((error + reply) \<times> nat) option" where
  "looping_call f n =
     (case f n of
        (Continue, n') \<Rightarrow> looping_call f n'
      | (LoopingCallDone r, n') \<Rightarrow> Some (Inr r, n')
      | (Raised e, n') \<Rightarrow> Some (Inl e, n'))"

text \<open>
  The callback that \<^verbatim>\<open>_monitor_request\<close> gives to the timer, with its arguments.
  \<open>clock k\<close> is the value of \<^verbatim>\<open>int(time.time())\<close> in the run that follows \<open>k\<close> queries; the
  sleeps of the timer and the time a query takes show only there, so any sequence of
  readings is allowed.
\<close>

definition poll :: "(nat \<Rightarrow> int) \<Rightarrow> DISCOCheck \<Rightarrow> int \<Rightarrow> nat \<Rightarrow> step \<times> nat" where
  "poll clock chk timeout n =
     retry_get_detail (client chk) (clock n) (start_time chk) timeout (func chk) (param chk) n"

text \<open>
  The expression \<^verbatim>\<open>timer.start(interval=CONF.retry_interval).wait()\<close>: what \<^verbatim>\<open>wait\<close> returns
  or raises, with the number of queries made.
\<close>

definition timer_wait :: "(nat \<Rightarrow> int) \<Rightarrow> DISCOCheck \<Rightarrow> int \<Rightarrow> ((error + reply) \<times> nat) option" where
  "timer_wait clock chk timeout = looping_call (poll clock chk timeout) 0"

text \<open>
  \<^verbatim>\<open>_monitor_request\<close>. The expression above is its last statement and the method has no
  \<^verbatim>\<open>return\<close>: an exception of \<^verbatim>\<open>wait\<close> goes through, and the reply that \<^verbatim>\<open>wait\<close> returns is
  dropped, the method returning \<^verbatim>\<open>None\<close>. The value returned is an optional reply here, so
  that it can be compared with a reply; it is always \<open>None\<close>.
\<close>

definition monitor_request ::
  "(nat \<Rightarrow> int) \<Rightarrow> DISCOCheck \<Rightarrow> int \<Rightarrow> ((error + reply option) \<times> nat) option" where
  "monitor_request clock chk timeout =
     (case timer_wait clock chk timeout of
        None \<Rightarrow> None
      | Some (Inl e, n) \<Rightarrow> Some (Inl e, n)
      | Some (Inr r, n) \<Rightarrow> Some (Inr None, n))"

subsection \<open>Vocabulary of the properties\<close>

text \<open>
  \<open>answers chk k r\<close>: after \<open>k\<close> queries the monitor makes its next query and the client
  answers it with the reply \<open>r\<close>. This holds only for one of the three operations whose
  parameters are present, since \<^verbatim>\<open>_call_api\<close> makes no query otherwise.
\<close>

definition answers :: "DISCOCheck \<Rightarrow> nat \<Rightarrow> reply \<Rightarrow> bool" where
  "answers chk k r = (call_api (client chk) (func chk) (param chk) k = (Inr (Some r), Suc k))"

text \<open>
  \<open>reply_state operation r code\<close>: the call was accepted (transport status 0) and the item
  status that \<^verbatim>\<open>_get_item_status\<close> extracts for the operation is \<open>code\<close>.
\<close>

definition reply_state :: "string \<Rightarrow> reply \<Rightarrow> int \<Rightarrow> bool" where
  "reply_state operation r code = (status r = 0 \<and> get_item_status operation (Some r) = Inr code)"

subsection \<open>Scenarios\<close>

text \<open>
  The scenarios the properties are tried on. A scripted client answers its \<open>k\<close>-th query
  with the \<open>k\<close>-th entry of a list, whatever the query, and with \<^verbatim>\<open>None\<close> once the list is
  used up.
\<close>

definition scripted :: "reply option list \<Rightarrow> client" where
  "scripted rs k c = (if k < length rs then rs ! k else None)"

text \<open>A steady client answers every query with the same reply.\<close>

definition steady :: "reply \<Rightarrow> client" where
  "steady r k c = Some r"

text \<open>
  An accepted reply (transport status 0) to the detail query of an operation, with the
  item status \<open>code\<close> where that operation keeps it.
\<close>

definition detail_reply :: "string \<Rightarrow> int \<Rightarrow> reply" where
  "detail_reply operation code =
     (if operation = ''snapshot_detail'' then
        \<lparr>status = 0, result = None,
         snapshotInfoResult = Some [''status'' \<mapsto> code], restoreInfoResult = None\<rparr>
      else if operation = ''restore_detail'' then
        \<lparr>status = 0, result = None,
         snapshotInfoResult = None, restoreInfoResult = Some [''status'' \<mapsto> code]\<rparr>
      else
        \<lparr>status = 0, result = Some code, snapshotInfoResult = None, restoreInfoResult = None\<rparr>)"

text \<open>A script of accepted replies, one for each item status of a list.\<close>

definition script :: "string \<Rightarrow> int list \<Rightarrow> reply option list" where
  "script operation codes = map (\<lambda>code. Some (detail_reply operation code)) codes"

text \<open>
  The parameters the driver passes for each operation (\<^verbatim>\<open>create_snapshot\<close>,
  \<^verbatim>\<open>create_volume_from_snapshot\<close>, \<^verbatim>\<open>create_cloned_volume\<close>), and a monitor that starts
  at time 100 on a scripted client.
\<close>

definition example_params :: "string \<Rightarrow> params" where
  "example_params operation =
     (if operation = ''snapshot_detail'' then [''snapshot_id'' \<mapsto> PInt 7]
      else if operation = ''restore_detail'' then [''restore_id'' \<mapsto> PInt 8]
      else [''clone_id'' \<mapsto> PInt 9, ''vol_name'' \<mapsto> PStr ''openstack-v1''])"

definition example_check :: "string \<Rightarrow> reply option list \<Rightarrow> DISCOCheck" where
  "example_check operation rs =
     \<lparr>start_time = 100, func = operation, client = scripted rs, param = example_params operation\<rparr>"

section \<open>The timer\<close>

lemma looping_call_Continue:
  "f n = (Continue, n') \<Longrightarrow> looping_call f n = looping_call f n'"
  by (subst looping_call.simps) simp

lemma looping_call_Done:
  "f n = (LoopingCallDone r, n') \<Longrightarrow> looping_call f n = Some (Inr r, n')"
  by (subst looping_call.simps) simp

lemma looping_call_Raised:
  "f n = (Raised e, n') \<Longrightarrow> looping_call f n = Some (Inl e, n')"
  by (subst looping_call.simps) simp

text \<open>Runs that return are skipped: the timer's result is that of the later runs.\<close>

lemma looping_call_skip:
  "(\<And>j. j < k \<Longrightarrow> f (n + j) = (Continue, Suc (n + j))) \<Longrightarrow>
   looping_call f n = looping_call f (n + k)"
proof (induction k)
  case 0
  show ?case by simp
next
  case (Suc k)
  have "looping_call f n = looping_call f (n + k)"
    using Suc by simp
  also have "\<dots> = looping_call f (Suc (n + k))"
    using Suc.prems [of k] by (simp add: looping_call_Continue)
  finally show ?case by simp
qed

text \<open>A timer that ends has met a run that did not just return.\<close>

lemma looping_call_returns_bound:
  assumes "looping_call f n = Some y"
  shows "\<exists>k\<ge>n. f k \<noteq> (Continue, Suc k)"
proof (rule looping_call.raw_induct [where P = "\<lambda>g m z. \<exists>k\<ge>m. g k \<noteq> (Continue, Suc k)", OF _ assms])
  fix lc :: "(nat \<Rightarrow> step \<times> nat) \<Rightarrow> nat \<Rightarrow> ((error + reply) \<times> nat) option"
  fix g m z
  assume IH: "\<And>g m z. lc g m = Some z \<Longrightarrow> \<exists>k\<ge>m. g k \<noteq> (Continue, Suc k)"
  assume body: "(case g m of (Continue, n') \<Rightarrow> lc g n'
                 | (LoopingCallDone r, n') \<Rightarrow> Some (Inr r, n')
                 | (Raised e, n') \<Rightarrow> Some (Inl e, n')) = Some z"
  show "\<exists>k\<ge>m. g k \<noteq> (Continue, Suc k)"
  proof (cases "g m = (Continue, Suc m)")
    case True
    with body have "lc g (Suc m) = Some z" by simp
    from IH [OF this] obtain k where "Suc m \<le> k" and "g k \<noteq> (Continue, Suc k)"
      by (elim exE conjE)
    then show ?thesis by (intro exI [of _ k]) simp
  next
    case False
    then show ?thesis by (intro exI [of _ m]) simp
  qed
qed

lemma looping_call_diverges:
  "(\<And>k. n \<le> k \<Longrightarrow> f k = (Continue, Suc k)) \<Longrightarrow> looping_call f n = None"
  using looping_call_returns_bound [of f n] by (cases "looping_call f n") auto

text \<open>A timer that ends took its result from one of the runs.\<close>

lemma looping_call_result:
  assumes "looping_call f n = Some y"
  shows "\<exists>k. (\<exists>r. f k = (LoopingCallDone r, snd y) \<and> fst y = Inr r) \<or>
             (\<exists>e. f k = (Raised e, snd y) \<and> fst y = Inl e)"
proof (rule looping_call.raw_induct
    [where P = "\<lambda>g m z. \<exists>k. (\<exists>r. g k = (LoopingCallDone r, snd z) \<and> fst z = Inr r) \<or>
                            (\<exists>e. g k = (Raised e, snd z) \<and> fst z = Inl e)", OF _ assms])
  fix lc :: "(nat \<Rightarrow> step \<times> nat) \<Rightarrow> nat \<Rightarrow> ((error + reply) \<times> nat) option"
  fix g m z
  assume IH: "\<And>g m z. lc g m = Some z \<Longrightarrow>
      \<exists>k. (\<exists>r. g k = (LoopingCallDone r, snd z) \<and> fst z = Inr r) \<or>
          (\<exists>e. g k = (Raised e, snd z) \<and> fst z = Inl e)"
  assume body: "(case g m of (Continue, n') \<Rightarrow> lc g n'
                 | (LoopingCallDone r, n') \<Rightarrow> Some (Inr r, n')
                 | (Raised e, n') \<Rightarrow> Some (Inl e, n')) = Some z"
  obtain s n' where gm: "g m = (s, n')" by (cases "g m")
  show "\<exists>k. (\<exists>r. g k = (LoopingCallDone r, snd z) \<and> fst z = Inr r) \<or>
            (\<exists>e. g k = (Raised e, snd z) \<and> fst z = Inl e)"
  proof (cases s)
    case Continue
    with body gm have "lc g n' = Some z" by simp
    then show ?thesis by (rule IH)
  next
    case (LoopingCallDone r)
    with body gm have "z = (Inr r, n')" by simp
    with gm LoopingCallDone show ?thesis by (intro exI [of _ m]) simp
  next
    case (Raised e)
    with body gm have "z = (Inl e, n')" by simp
    with gm Raised show ?thesis by (intro exI [of _ m]) simp
  qed
qed

section \<open>One run of the callback\<close>

lemma retry_get_detail_reply:
  assumes "call_api cl operation ps n = (Inr (Some r), n')"
  shows "retry_get_detail cl now st tmo operation ps n =
     (if status r \<noteq> 0 then Raised (VolumeBackendAPIException (Msg (detail_error_msg operation (status r))))
      else (case get_item_status operation (Some r) of
              Inl e \<Rightarrow> Raised e
            | Inr item_status \<Rightarrow>
                if item_status = request_failure then
                  Raised (VolumeBackendAPIException (Msg (detail_error_msg operation (status r))))
                else if item_status = request_success then LoopingCallDone r
                else if is_timeout now st tmo then
                  Raised (VolumeBackendAPIException (Msg (timeout_msg operation)))
                else Continue), n')"
  using assms by (simp add: retry_get_detail_def Let_def split: sum.split)

lemma poll_bad_status:
  "answers chk k r \<Longrightarrow> status r \<noteq> 0 \<Longrightarrow>
   poll clock chk tmo k =
     (Raised (VolumeBackendAPIException (Msg (detail_error_msg (func chk) (status r)))), Suc k)"
  by (simp add: poll_def answers_def retry_get_detail_reply)

lemma poll_success:
  "answers chk k r \<Longrightarrow> reply_state (func chk) r request_success \<Longrightarrow>
   poll clock chk tmo k = (LoopingCallDone r, Suc k)"
  by (simp add: poll_def answers_def reply_state_def retry_get_detail_reply
      request_success_def request_failure_def)

lemma poll_failure:
  "answers chk k r \<Longrightarrow> reply_state (func chk) r request_failure \<Longrightarrow>
   poll clock chk tmo k =
     (Raised (VolumeBackendAPIException (Msg (detail_error_msg (func chk) 0))), Suc k)"
  by (simp add: poll_def answers_def reply_state_def retry_get_detail_reply)

lemma poll_other:
  "answers chk k r \<Longrightarrow> reply_state (func chk) r code \<Longrightarrow>
   code \<noteq> request_success \<Longrightarrow> code \<noteq> request_failure \<Longrightarrow>
   poll clock chk tmo k =
     (if is_timeout (clock k) (start_time chk) tmo
      then Raised (VolumeBackendAPIException (Msg (timeout_msg (func chk))))
      else Continue, Suc k)"
  by (simp add: poll_def answers_def reply_state_def retry_get_detail_reply)

lemma poll_None:
  "call_api (client chk) (func chk) (param chk) k = (Inr None, Suc k) \<Longrightarrow>
   poll clock chk tmo k = (Raised TypeError, Suc k)"
  by (simp add: poll_def retry_get_detail_def)

lemma poll_unknown:
  "func chk \<noteq> ''snapshot_detail'' \<Longrightarrow> func chk \<noteq> ''restore_detail'' \<Longrightarrow>
   func chk \<noteq> ''clone_detail'' \<Longrightarrow>
   poll clock chk tmo k =
     (Raised (VolumeBackendAPIException (MsgTuple ''Unknown operation %s.'' (func chk))), k)"
  by (simp add: poll_def retry_get_detail_def call_api_def)

lemma timer_wait_skip:
  "(\<And>j. j < k \<Longrightarrow> poll clock chk tmo j = (Continue, Suc j)) \<Longrightarrow>
   timer_wait clock chk tmo = looping_call (poll clock chk tmo) k"
  using looping_call_skip [of k "poll clock chk tmo" 0] by (simp add: timer_wait_def)

text \<open>\<^verbatim>\<open>_monitor_request\<close> after \<^verbatim>\<open>wait\<close>: errors go through, a reply is dropped.\<close>

lemma monitor_request_Raised:
  "timer_wait clock chk tmo = Some (Inl e, n) \<Longrightarrow> monitor_request clock chk tmo = Some (Inl e, n)"
  by (simp add: monitor_request_def)

lemma monitor_request_Done:
  "timer_wait clock chk tmo = Some (Inr r, n) \<Longrightarrow> monitor_request clock chk tmo = Some (Inr None, n)"
  by (simp add: monitor_request_def)

lemma monitor_request_None:
  "timer_wait clock chk tmo = None \<Longrightarrow> monitor_request clock chk tmo = None"
  by (simp add: monitor_request_def)

lemma monitor_request_error:
  "monitor_request clock chk tmo = Some (Inl e, n) \<Longrightarrow> timer_wait clock chk tmo = Some (Inl e, n)"
  by (auto simp: monitor_request_def split: option.splits sum.splits)

text \<open>The monitor when the runs before run \<open>k\<close> returned and run \<open>k\<close> ends the timer.\<close>

lemma monitor_request_raised_at:
  assumes "\<And>j. j < k \<Longrightarrow> poll clock chk tmo j = (Continue, Suc j)"
    and "poll clock chk tmo k = (Raised e, n)"
  shows "monitor_request clock chk tmo = Some (Inl e, n)"
proof -
  have "timer_wait clock chk tmo = looping_call (poll clock chk tmo) k"
    using assms(1) by (rule timer_wait_skip)
  also have "\<dots> = Some (Inl e, n)"
    using assms(2) by (rule looping_call_Raised)
  finally show ?thesis by (rule monitor_request_Raised)
qed

lemma monitor_request_first_raised:
  "poll clock chk tmo 0 = (Raised e, n) \<Longrightarrow> monitor_request clock chk tmo = Some (Inl e, n)"
  by (rule monitor_request_raised_at) simp_all

lemma timer_wait_done_at:
  assumes "\<And>j. j < k \<Longrightarrow> poll clock chk tmo j = (Continue, Suc j)"
    and "poll clock chk tmo k = (LoopingCallDone r, n)"
  shows "timer_wait clock chk tmo = Some (Inr r, n)"
proof -
  have "timer_wait clock chk tmo = looping_call (poll clock chk tmo) k"
    using assms(1) by (rule timer_wait_skip)
  also have "\<dots> = Some (Inr r, n)"
    using assms(2) by (rule looping_call_Done)
  finally show ?thesis .
qed

lemma monitor_request_never:
  assumes "\<And>j. poll clock chk tmo j = (Continue, Suc j)"
  shows "monitor_request clock chk tmo = None"
proof -
  have "timer_wait clock chk tmo = None"
    unfolding timer_wait_def using assms by (intro looping_call_diverges)
  then show ?thesis by (rule monitor_request_None)
qed

lemma monitor_request_error_run:
  assumes "monitor_request clock chk tmo = Some (Inl e, n)"
  shows "\<exists>k. poll clock chk tmo k = (Raised e, n)"
  using looping_call_result [OF monitor_request_error [OF assms, unfolded timer_wait_def]]
  by auto

lemma answers_example:
  "operation \<in> {''snapshot_detail'', ''restore_detail'', ''clone_detail''} \<Longrightarrow>
   k < length rs \<Longrightarrow> rs ! k = Some r \<Longrightarrow> answers (example_check operation rs) k r"
  by (auto simp: answers_def example_check_def call_api_def example_params_def scripted_def)

lemma reply_state_detail_reply:
  "operation \<in> {''snapshot_detail'', ''restore_detail'', ''clone_detail''} \<Longrightarrow>
   reply_state operation (detail_reply operation code) code"
  by (auto simp: reply_state_def detail_reply_def get_item_status_def)

lemma example_check_sel [simp]:
  "func (example_check operation rs) = operation"
  "start_time (example_check operation rs) = 100"
  by (simp_all add: example_check_def)

lemma answers_script:
  "operation \<in> {''snapshot_detail'', ''restore_detail'', ''clone_detail''} \<Longrightarrow>
   k < length codes \<Longrightarrow>
   answers (example_check operation (script operation codes)) k (detail_reply operation (codes ! k))"
  by (rule answers_example) (simp_all add: script_def)

lemma poll_reply:
  assumes "answers chk k r"
  shows "poll clock chk tmo k =
     (if status r \<noteq> 0 then
        Raised (VolumeBackendAPIException (Msg (detail_error_msg (func chk) (status r))))
      else (case get_item_status (func chk) (Some r) of
              Inl e \<Rightarrow> Raised e
            | Inr item_status \<Rightarrow>
                if item_status = request_failure then
                  Raised (VolumeBackendAPIException (Msg (detail_error_msg (func chk) (status r))))
                else if item_status = request_success then LoopingCallDone r
                else if is_timeout (clock k) (start_time chk) tmo then
                  Raised (VolumeBackendAPIException (Msg (timeout_msg (func chk))))
                else Continue), Suc k)"
  using assms unfolding poll_def answers_def by (rule retry_get_detail_reply)

text \<open>An accepted query is counted, whatever the run does with the reply.\<close>

lemma answers_count:
  "answers chk j r \<Longrightarrow> snd (poll clock chk tmo k) = Suc k"
  by (auto simp: answers_def poll_def retry_get_detail_def call_api_def Let_def
      split: if_splits option.splits sum.splits)

text \<open>The errors that \<^verbatim>\<open>_call_api\<close> and \<^verbatim>\<open>_get_item_status\<close> raise, and the data of the
  exceptions that a run raises.\<close>

lemma call_api_error:
  "call_api cl operation ps n = (Inl e, n') \<Longrightarrow>
   (\<exists>key. e = KeyError key) \<or>
   e = VolumeBackendAPIException (MsgTuple ''Unknown operation %s.'' operation)"
  by (auto simp: call_api_def split: if_splits option.splits)

lemma get_item_status_error:
  "get_item_status operation (Some r) = Inl e \<Longrightarrow>
   (\<exists>key. e = KeyError key) \<or>
   e = VolumeBackendAPIException (MsgTuple ''Unknown operation %s.'' operation)"
  by (auto simp: get_item_status_def split: if_splits option.splits)

lemma poll_error_data:
  assumes "poll clock chk tmo k = (Raised (VolumeBackendAPIException d), n)"
  shows "d = MsgTuple ''Unknown operation %s.'' (func chk) \<or>
         (\<exists>st. d = Msg (detail_error_msg (func chk) st)) \<or>
         d = Msg (timeout_msg (func chk))"
proof (cases "call_api (client chk) (func chk) (param chk) k")
  case (Pair res n')
  show ?thesis
  proof (cases res)
    case (Inl e)
    with Pair assms have "e = VolumeBackendAPIException d"
      by (simp add: poll_def retry_get_detail_def)
    with call_api_error [of "client chk" "func chk" "param chk" k e n'] Pair Inl
    show ?thesis by auto
  next
    case (Inr rep)
    show ?thesis
    proof (cases rep)
      case None
      with Pair Inr assms show ?thesis
        by (simp add: poll_def retry_get_detail_def)
    next
      case (Some r)
      with Pair Inr have "call_api (client chk) (func chk) (param chk) k = (Inr (Some r), n')"
        by simp
      from retry_get_detail_reply [OF this, of "clock k" "start_time chk" tmo] assms
      show ?thesis
        by (auto simp: poll_def split: if_splits sum.splits dest!: get_item_status_error)
    qed
  qed
qed

lemma steady_answers:
  "operation \<in> {''snapshot_detail'', ''restore_detail'', ''clone_detail''} \<Longrightarrow>
   answers \<lparr>start_time = t, func = operation, client = steady r, param = example_params operation\<rparr> k r"
  by (auto simp: answers_def call_api_def example_params_def steady_def)

section \<open>What a message holds\<close>

lemma timeout_msg_neq_detail_error_msg:
  "timeout_msg operation \<noteq> detail_error_msg operation' st"
  "detail_error_msg operation' st \<noteq> timeout_msg operation"
  by (simp_all add: timeout_msg_def detail_error_msg_def)

lemma digit_inj:
  "a < 10 \<Longrightarrow> b < 10 \<Longrightarrow> ''0123456789'' ! a = ''0123456789'' ! b \<Longrightarrow> a = b"
proof -
  have "distinct ''0123456789''" by simp
  moreover have "length ''0123456789'' = 10" by simp
  ultimately show "a < 10 \<Longrightarrow> b < 10 \<Longrightarrow> ''0123456789'' ! a = ''0123456789'' ! b \<Longrightarrow> a = b"
    by (metis nth_eq_iff_index_eq)
qed

lemma str_nat_not_Nil: "str_nat n \<noteq> []"
  by (subst str_nat.simps) simp

lemma str_nat_digits: "set (str_nat n) \<subseteq> set ''0123456789''"
proof (induction n rule: str_nat.induct)
  case (1 n)
  have d: "''0123456789'' ! m \<in> set ''0123456789''" if "m < 10" for m
    using that by (intro nth_mem) simp
  show ?case
  proof (cases "n < 10")
    case True
    then show ?thesis using d [of n] by (subst str_nat.simps) simp
  next
    case False
    then show ?thesis using 1 d [of "n mod 10"] by (subst str_nat.simps) simp
  qed
qed

lemma str_nat_inj: "str_nat n = str_nat m \<Longrightarrow> n = m"
proof (induction n arbitrary: m rule: str_nat.induct)
  case (1 n)
  show ?case
  proof (cases "n < 10")
    case n: True
    show ?thesis
    proof (cases "m < 10")
      case True
      with n "1.prems" show ?thesis
        by (simp add: str_nat.simps [of n] str_nat.simps [of m] digit_inj)
    next
      case False
      with n "1.prems" str_nat_not_Nil [of "m div 10"] show ?thesis
        by (simp add: str_nat.simps [of n] str_nat.simps [of m])
    qed
  next
    case n: False
    show ?thesis
    proof (cases "m < 10")
      case True
      with n "1.prems" str_nat_not_Nil [of "n div 10"] show ?thesis
        by (simp add: str_nat.simps [of n] str_nat.simps [of m])
    next
      case False
      with n "1.prems" have eq: "str_nat (n div 10) = str_nat (m div 10)"
        and last: "''0123456789'' ! (n mod 10) = ''0123456789'' ! (m mod 10)"
        by (simp_all add: str_nat.simps [of n] str_nat.simps [of m])
      from "1.IH" [OF n eq] have "n div 10 = m div 10" .
      moreover from last have "n mod 10 = m mod 10"
        by (intro digit_inj) simp_all
      ultimately show ?thesis
        by (metis div_mult_mod_eq)
    qed
  qed
qed

text \<open>The status can be read back from its text.\<close>

lemma text_type_inj: "text_type i = text_type j \<Longrightarrow> i = j"
proof -
  have minus: "CHR ''-'' # xs \<noteq> str_nat n" for xs n
  proof
    assume "CHR ''-'' # xs = str_nat n"
    then have "CHR ''-'' \<in> set (str_nat n)" by (metis list.set_intros(1))
    with str_nat_digits [of n] show False by auto
  qed
  assume eq: "text_type i = text_type j"
  show "i = j"
  proof (cases "i < 0")
    case i: True
    show ?thesis
    proof (cases "j < 0")
      case True
      with i eq have "nat (- i) = nat (- j)"
        by (simp add: text_type_def str_nat_inj)
      with i True show ?thesis by simp
    next
      case False
      with i eq minus show ?thesis by (simp add: text_type_def)
    qed
  next
    case i: False
    show ?thesis
    proof (cases "j < 0")
      case True
      with i eq minus [of "str_nat (nat (- j))" "nat i"] show ?thesis
        by (simp add: text_type_def)
    next
      case False
      with i eq have "nat i = nat j"
        by (simp add: text_type_def str_nat_inj)
      with i False show ?thesis by simp
    qed
  qed
qed

text \<open>
  The operation can be read back from the timeout message, and the operation and the
  status from the message of a detail error of one of the three operations.
\<close>

lemma timeout_msg_inj: "timeout_msg operation = timeout_msg operation' \<Longrightarrow> operation = operation'"
  by (simp add: timeout_msg_def)

lemma detail_error_msg_inj:
  assumes "operation \<in> {''snapshot_detail'', ''restore_detail'', ''clone_detail''}"
    and "operation' \<in> {''snapshot_detail'', ''restore_detail'', ''clone_detail''}"
    and "detail_error_msg operation st = detail_error_msg operation' st'"
  shows "operation = operation' \<and> st = st'"
  using assms by (auto simp: detail_error_msg_def dest: text_type_inj)

section \<open>Properties of the monitor\<close>

text \<open>
  In what follows the error kinds of the specification are the exceptions of the code:
  \<^item> \<open>UnsupportedOperationKind\<close> is \<^verbatim>\<open>VolumeBackendAPIException\<close> with the pair
    \<^verbatim>\<open>("Unknown operation %s.", operation)\<close>;
  \<^item> \<open>OperationQueryFailed\<close> and \<open>OperationFailed\<close> are \<^verbatim>\<open>VolumeBackendAPIException\<close> with the
    message \<open>detail_error_msg\<close>, raised for a transport status other than 0 and for the item
    status 3;
  \<^item> \<open>OperationTimedOut\<close> is \<^verbatim>\<open>VolumeBackendAPIException\<close> with the message \<open>timeout_msg\<close>;
  \<^item> \<open>InvalidReply\<close> is \<^verbatim>\<open>VolumeBackendAPIException\<close> with the message
    \<^verbatim>\<open>Call returned a None object\<close>.
\<close>

text \<open>
  Ongoing, Ongoing, Success within the timeout: the third run ends the timer with its
  reply.
\<close>

lemma timer_wait_ongoing_ongoing_success:
  assumes "answers chk 0 r0" and "reply_state (func chk) r0 request_ongoing"
    and "answers chk 1 r1" and "reply_state (func chk) r1 request_ongoing"
    and "answers chk 2 r2" and "reply_state (func chk) r2 request_success"
    and "clock 0 - start_time chk \<le> timeout"
    and "clock 1 - start_time chk \<le> timeout"
  shows "timer_wait clock chk timeout = Some (Inr r2, 3)"
proof -
  have ongoing: "request_ongoing \<noteq> request_success" "request_ongoing \<noteq> request_failure"
    by (simp_all add: request_ongoing_def request_success_def request_failure_def)
  have p0: "poll clock chk timeout 0 = (Continue, Suc 0)"
    using poll_other [OF assms(1,2) ongoing, of clock timeout] assms(7)
    by (simp add: is_timeout_def)
  have p1: "poll clock chk timeout 1 = (Continue, Suc 1)"
    using poll_other [OF assms(3,4) ongoing, of clock timeout] assms(8)
    by (simp add: is_timeout_def)
  have "poll clock chk timeout j = (Continue, Suc j)" if "j < 2" for j
  proof -
    from that have "j = 0 \<or> j = 1" by arith
    then show ?thesis using p0 p1 by auto
  qed
  then have "timer_wait clock chk timeout = Some (Inr r2, Suc 2)"
    using poll_success [OF assms(5,6)] by (rule timer_wait_done_at)
  then show ?thesis by (simp add: numeral_3_eq_3)
qed

text \<open>
  \<^bold>\<open>C1\<close> (as amended). For each of the three operations: when the client answers the first
  two queries with replies whose item status is Ongoing and the third with a reply whose
  item status is Success, and the time read in the first two runs is within the timeout
  (the elapsed time since \<open>start_time\<close> is at most \<open>timeout\<close>), the timer ends with the third
  reply as the value of \<^verbatim>\<open>wait\<close> and the monitor returns normally, after exactly 3 queries.
  What the monitor returns is \<^verbatim>\<open>None\<close>: \<^verbatim>\<open>_monitor_request\<close> does not pass the reply on.
  \<open>answers\<close> holds only for the three operations with their parameters present.
\<close>

theorem monitor_ongoing_ongoing_success:
  assumes "answers chk 0 r0" and "reply_state (func chk) r0 request_ongoing"
    and "answers chk 1 r1" and "reply_state (func chk) r1 request_ongoing"
    and "answers chk 2 r2" and "reply_state (func chk) r2 request_success"
    and "clock 0 - start_time chk \<le> timeout"
    and "clock 1 - start_time chk \<le> timeout"
  shows "timer_wait clock chk timeout = Some (Inr r2, 3) \<and>
    monitor_request clock chk timeout = Some (Inr None, 3)"
proof -
  have "timer_wait clock chk timeout = Some (Inr r2, 3)"
    using assms by (rule timer_wait_ongoing_ongoing_success)
  then show ?thesis by (simp add: monitor_request_Done)
qed

text \<open>
  The three operations, polled once a second from the start time 100 with the default
  timeout of 3600 seconds.
\<close>

theorem monitor_ongoing_ongoing_success_witness:
  "timer_wait (\<lambda>k. 100 + int k)
     (example_check ''snapshot_detail'' (script ''snapshot_detail'' [2, 2, 1])) 3600
     = Some (Inr (detail_reply ''snapshot_detail'' 1), 3) \<and>
   monitor_request (\<lambda>k. 100 + int k)
     (example_check ''snapshot_detail'' (script ''snapshot_detail'' [2, 2, 1])) 3600
     = Some (Inr None, 3) \<and>
   timer_wait (\<lambda>k. 100 + int k)
     (example_check ''restore_detail'' (script ''restore_detail'' [2, 2, 1])) 3600
     = Some (Inr (detail_reply ''restore_detail'' 1), 3) \<and>
   monitor_request (\<lambda>k. 100 + int k)
     (example_check ''restore_detail'' (script ''restore_detail'' [2, 2, 1])) 3600
     = Some (Inr None, 3) \<and>
   timer_wait (\<lambda>k. 100 + int k)
     (example_check ''clone_detail'' (script ''clone_detail'' [2, 2, 1])) 3600
     = Some (Inr (detail_reply ''clone_detail'' 1), 3) \<and>
   monitor_request (\<lambda>k. 100 + int k)
     (example_check ''clone_detail'' (script ''clone_detail'' [2, 2, 1])) 3600
     = Some (Inr None, 3)"
proof -
  have *: "timer_wait (\<lambda>k. 100 + int k)
       (example_check operation (script operation [2, 2, 1])) 3600
       = Some (Inr (detail_reply operation 1), 3) \<and>
     monitor_request (\<lambda>k. 100 + int k)
       (example_check operation (script operation [2, 2, 1])) 3600
       = Some (Inr None, 3)"
    if op: "operation \<in> {''snapshot_detail'', ''restore_detail'', ''clone_detail''}" for operation
  proof (rule monitor_ongoing_ongoing_success
      [where ?r0.0 = "detail_reply operation 2" and ?r1.0 = "detail_reply operation 2"])
    show "answers (example_check operation (script operation [2, 2, 1])) 0 (detail_reply operation 2)"
      using answers_script [OF op, of 0 "[2, 2, 1]"] by simp
    show "answers (example_check operation (script operation [2, 2, 1])) 1 (detail_reply operation 2)"
      using answers_script [OF op, of 1 "[2, 2, 1]"] by simp
    show "answers (example_check operation (script operation [2, 2, 1])) 2 (detail_reply operation 1)"
      using answers_script [OF op, of 2 "[2, 2, 1]"] by simp
  qed (simp_all add: reply_state_detail_reply [OF op] request_ongoing_def request_success_def)
  from * [of "''snapshot_detail''"] * [of "''restore_detail''"] * [of "''clone_detail''"]
  show ?thesis by simp
qed

text \<open>
  The property as first stated fails twice. The client answers Ongoing, Ongoing, Success.
  With a timeout of 2 seconds and a slow first query (the time read in the first run is 3
  seconds after \<open>start_time\<close>) the monitor raises the timeout error after the first query.
  And polled once a second with the timeout of 3600 seconds, the monitor makes its 3
  queries and returns \<^verbatim>\<open>None\<close>, not the Success reply.
\<close>

theorem monitor_ongoing_ongoing_success_counterexample:
  "answers (example_check ''snapshot_detail'' (script ''snapshot_detail'' [2, 2, 1])) 0
       (detail_reply ''snapshot_detail'' 2) \<and>
   answers (example_check ''snapshot_detail'' (script ''snapshot_detail'' [2, 2, 1])) 1
       (detail_reply ''snapshot_detail'' 2) \<and>
   answers (example_check ''snapshot_detail'' (script ''snapshot_detail'' [2, 2, 1])) 2
       (detail_reply ''snapshot_detail'' 1) \<and>
   reply_state ''snapshot_detail'' (detail_reply ''snapshot_detail'' 2) request_ongoing \<and>
   reply_state ''snapshot_detail'' (detail_reply ''snapshot_detail'' 1) request_success \<and>
   monitor_request (\<lambda>k. 103 + int k)
     (example_check ''snapshot_detail'' (script ''snapshot_detail'' [2, 2, 1])) 2
     = Some (Inl (VolumeBackendAPIException (Msg ''Timeout while calling snapshot_detail '')), 1) \<and>
   monitor_request (\<lambda>k. 100 + int k)
     (example_check ''snapshot_detail'' (script ''snapshot_detail'' [2, 2, 1])) 3600
     = Some (Inr None, 3) \<and>
   None \<noteq> Some (detail_reply ''snapshot_detail'' 1)"
proof -
  let ?chk = "example_check ''snapshot_detail'' (script ''snapshot_detail'' [2, 2, 1])"
  have a: "answers ?chk 0 (detail_reply ''snapshot_detail'' 2)"
    "answers ?chk 1 (detail_reply ''snapshot_detail'' 2)"
    "answers ?chk 2 (detail_reply ''snapshot_detail'' 1)"
    using answers_script [of "''snapshot_detail''" 0 "[2, 2, 1]"]
      answers_script [of "''snapshot_detail''" 1 "[2, 2, 1]"]
      answers_script [of "''snapshot_detail''" 2 "[2, 2, 1]"]
    by simp_all
  have s: "reply_state (func ?chk) (detail_reply ''snapshot_detail'' 2) 2"
    "reply_state ''snapshot_detail'' (detail_reply ''snapshot_detail'' 2) request_ongoing"
    "reply_state ''snapshot_detail'' (detail_reply ''snapshot_detail'' 1) request_success"
    by (simp_all add: reply_state_detail_reply request_ongoing_def request_success_def)
  have "poll (\<lambda>k. 103 + int k) ?chk 2 0 =
      (Raised (VolumeBackendAPIException (Msg ''Timeout while calling snapshot_detail '')), Suc 0)"
    using poll_other [OF a(1) s(1), of "\<lambda>k. 103 + int k" 2]
    by (simp add: is_timeout_def request_success_def request_failure_def timeout_msg_def)
  then have slow: "monitor_request (\<lambda>k. 103 + int k) ?chk 2 =
      Some (Inl (VolumeBackendAPIException (Msg ''Timeout while calling snapshot_detail '')), 1)"
    by (simp add: monitor_request_first_raised)
  have "timer_wait (\<lambda>k. 100 + int k) ?chk 3600 = Some (Inr (detail_reply ''snapshot_detail'' 1), 3)"
    using a s(2,3)
    by (intro timer_wait_ongoing_ongoing_success
          [where ?r0.0 = "detail_reply ''snapshot_detail'' 2"
             and ?r1.0 = "detail_reply ''snapshot_detail'' 2"]) simp_all
  then have "monitor_request (\<lambda>k. 100 + int k) ?chk 3600 = Some (Inr None, 3)"
    by (rule monitor_request_Done)
  with a s(2,3) slow show ?thesis by simp
qed

text \<open>
  \<^bold>\<open>C2\<close>. The item status is read where the operation keeps it. For \<^verbatim>\<open>clone_detail\<close> it is
  the top-level \<^verbatim>\<open>result\<close>: an accepted reply with \<^verbatim>\<open>result = 1\<close> ends the run with
  \<^verbatim>\<open>LoopingCallDone\<close>, whatever its info results are (also when it has none). For
  \<^verbatim>\<open>snapshot_detail\<close> it is \<^verbatim>\<open>snapshotInfoResult['status']\<close> and for \<^verbatim>\<open>restore_detail\<close> it is
  \<^verbatim>\<open>restoreInfoResult['status']\<close>, whatever \<^verbatim>\<open>result\<close> is: an accepted reply to
  \<^verbatim>\<open>snapshot_detail\<close> whose nested status is 2 is Ongoing (within the timeout the run
  returns and the polling goes on), also when its \<^verbatim>\<open>result\<close> is 1.
\<close>

theorem status_extraction_by_kind:
  "(result r = Some v \<longrightarrow> get_item_status ''clone_detail'' (Some r) = Inr v) \<and>
   (snapshotInfoResult r = Some d \<and> d ''status'' = Some s \<longrightarrow>
      get_item_status ''snapshot_detail'' (Some r) = Inr s) \<and>
   (restoreInfoResult r = Some d \<and> d ''status'' = Some s \<longrightarrow>
      get_item_status ''restore_detail'' (Some r) = Inr s) \<and>
   (func chk = ''clone_detail'' \<and> answers chk k r \<and> status r = 0 \<and>
      result r = Some request_success \<longrightarrow>
      poll clock chk timeout k = (LoopingCallDone r, Suc k)) \<and>
   (func chk = ''snapshot_detail'' \<and> answers chk k r \<and> status r = 0 \<and>
      snapshotInfoResult r = Some d \<and> d ''status'' = Some request_ongoing \<and>
      clock k - start_time chk \<le> timeout \<longrightarrow>
      poll clock chk timeout k = (Continue, Suc k))"
proof (intro conjI impI)
  assume "result r = Some v"
  then show "get_item_status ''clone_detail'' (Some r) = Inr v"
    by (simp add: get_item_status_def)
next
  assume "snapshotInfoResult r = Some d \<and> d ''status'' = Some s"
  then show "get_item_status ''snapshot_detail'' (Some r) = Inr s"
    by (simp add: get_item_status_def)
next
  assume "restoreInfoResult r = Some d \<and> d ''status'' = Some s"
  then show "get_item_status ''restore_detail'' (Some r) = Inr s"
    by (simp add: get_item_status_def)
next
  assume h: "func chk = ''clone_detail'' \<and> answers chk k r \<and> status r = 0 \<and>
    result r = Some request_success"
  then have "reply_state (func chk) r request_success"
    by (simp add: reply_state_def get_item_status_def)
  with h show "poll clock chk timeout k = (LoopingCallDone r, Suc k)"
    by (intro poll_success) simp_all
next
  assume h: "func chk = ''snapshot_detail'' \<and> answers chk k r \<and> status r = 0 \<and>
    snapshotInfoResult r = Some d \<and> d ''status'' = Some request_ongoing \<and>
    clock k - start_time chk \<le> timeout"
  then have s: "reply_state (func chk) r request_ongoing"
    by (simp add: reply_state_def get_item_status_def)
  have a: "answers chk k r" using h by simp
  have "request_ongoing \<noteq> request_success" "request_ongoing \<noteq> request_failure"
    by (simp_all add: request_ongoing_def request_success_def request_failure_def)
  from poll_other [OF a s this, of clock timeout] h
  show "poll clock chk timeout k = (Continue, Suc k)"
    by (simp add: is_timeout_def)
qed

text \<open>
  The two replies of the specification: a clone reply with \<^verbatim>\<open>result = 1\<close> and no info
  result is Success; a snapshot reply with \<^verbatim>\<open>result = 1\<close> and the nested status 2 is
  Ongoing.
\<close>

theorem status_extraction_by_kind_witness:
  "poll (\<lambda>k. 100 + int k)
     (example_check ''clone_detail''
        [Some \<lparr>status = 0, result = Some 1, snapshotInfoResult = None, restoreInfoResult = None\<rparr>])
     3600 0 =
   (LoopingCallDone
      \<lparr>status = 0, result = Some 1, snapshotInfoResult = None, restoreInfoResult = None\<rparr>, 1) \<and>
   poll (\<lambda>k. 100 + int k)
     (example_check ''snapshot_detail''
        [Some \<lparr>status = 0, result = Some 1, snapshotInfoResult = Some [''status'' \<mapsto> 2],
               restoreInfoResult = None\<rparr>])
     3600 0 = (Continue, 1)"
proof -
  let ?c = "\<lparr>status = 0, result = Some 1, snapshotInfoResult = None, restoreInfoResult = None\<rparr>"
  let ?s = "\<lparr>status = 0, result = Some 1, snapshotInfoResult = Some [''status'' \<mapsto> 2],
               restoreInfoResult = None\<rparr>"
  have c: "answers (example_check ''clone_detail'' [Some ?c]) 0 ?c"
    by (rule answers_example) simp_all
  have s: "answers (example_check ''snapshot_detail'' [Some ?s]) 0 ?s"
    by (rule answers_example) simp_all
  have "poll (\<lambda>k. 100 + int k) (example_check ''clone_detail'' [Some ?c]) 3600 0 =
      (LoopingCallDone ?c, 1)"
    using c status_extraction_by_kind
      [of ?c _ _ _ "example_check ''clone_detail'' [Some ?c]" 0 "\<lambda>k. 100 + int k" 3600]
    by (simp add: request_success_def)
  moreover have "poll (\<lambda>k. 100 + int k) (example_check ''snapshot_detail'' [Some ?s]) 3600 0 =
      (Continue, 1)"
    using s status_extraction_by_kind
      [of ?s _ "[''status'' \<mapsto> 2]" _ "example_check ''snapshot_detail'' [Some ?s]" 0
          "\<lambda>k. 100 + int k" 3600]
    by (simp add: request_ongoing_def)
  ultimately show ?thesis by simp
qed

text \<open>
  \<^bold>\<open>C3\<close> (as amended). In every run the item status is compared with Failure and with
  Success before the time is read. So a reply whose item status is Success ends the timer
  with that reply as the value of \<^verbatim>\<open>wait\<close>, and the monitor returns normally, whatever the
  clock reads in that run, also past the deadline; what the monitor returns is \<^verbatim>\<open>None\<close>, as
  \<^verbatim>\<open>_monitor_request\<close> does not pass the reply on. A reply whose item status is Failure ends
  the monitor with the failure error. And a run raises the timeout error only when its
  reply was accepted with an item status that is neither Success nor Failure (and the
  elapsed time exceeds the timeout).
\<close>

theorem success_and_failure_before_timeout:
  assumes "answers chk k r"
  shows
    "((\<forall>j<k. poll clock chk timeout j = (Continue, Suc j)) \<and>
        reply_state (func chk) r request_success \<longrightarrow>
        timer_wait clock chk timeout = Some (Inr r, Suc k) \<and>
        monitor_request clock chk timeout = Some (Inr None, Suc k)) \<and>
     ((\<forall>j<k. poll clock chk timeout j = (Continue, Suc j)) \<and>
        reply_state (func chk) r request_failure \<longrightarrow>
        monitor_request clock chk timeout =
          Some (Inl (VolumeBackendAPIException (Msg (detail_error_msg (func chk) 0))), Suc k)) \<and>
     (poll clock chk timeout k =
        (Raised (VolumeBackendAPIException (Msg (timeout_msg (func chk)))), n) \<longrightarrow>
        clock k - start_time chk > timeout \<and>
        (\<exists>code. reply_state (func chk) r code \<and> code \<noteq> request_success \<and> code \<noteq> request_failure))"
proof (intro conjI impI)
  assume h: "(\<forall>j<k. poll clock chk timeout j = (Continue, Suc j)) \<and>
    reply_state (func chk) r request_success"
  then have runs: "poll clock chk timeout j = (Continue, Suc j)" if "j < k" for j
    using that by simp
  from h have "poll clock chk timeout k = (LoopingCallDone r, Suc k)"
    by (intro poll_success [OF assms]) simp
  with runs show w: "timer_wait clock chk timeout = Some (Inr r, Suc k)"
    by (rule timer_wait_done_at)
  then show "monitor_request clock chk timeout = Some (Inr None, Suc k)"
    by (rule monitor_request_Done)
next
  assume h: "(\<forall>j<k. poll clock chk timeout j = (Continue, Suc j)) \<and>
    reply_state (func chk) r request_failure"
  then have runs: "poll clock chk timeout j = (Continue, Suc j)" if "j < k" for j
    using that by simp
  from h have "poll clock chk timeout k =
      (Raised (VolumeBackendAPIException (Msg (detail_error_msg (func chk) 0))), Suc k)"
    by (intro poll_failure [OF assms]) simp
  with runs show "monitor_request clock chk timeout =
      Some (Inl (VolumeBackendAPIException (Msg (detail_error_msg (func chk) 0))), Suc k)"
    by (rule monitor_request_raised_at)
next
  assume t: "poll clock chk timeout k =
    (Raised (VolumeBackendAPIException (Msg (timeout_msg (func chk)))), n)"
  show "clock k - start_time chk > timeout"
    using t poll_reply [OF assms, of clock timeout]
    by (auto simp: is_timeout_def timeout_msg_neq_detail_error_msg
        split: if_splits sum.splits dest!: get_item_status_error)
  show "\<exists>code. reply_state (func chk) r code \<and> code \<noteq> request_success \<and> code \<noteq> request_failure"
    using t poll_reply [OF assms, of clock timeout]
    by (auto simp: reply_state_def timeout_msg_neq_detail_error_msg
        split: if_splits sum.splits dest!: get_item_status_error)
qed

text \<open>
  A snapshot whose first reply is Success, read 50 seconds after the start with a timeout
  of 2 seconds: the timer ends with the reply and the monitor returns normally.
\<close>

theorem success_and_failure_before_timeout_witness:
  "timer_wait (\<lambda>k. 150 + int k)
     (example_check ''snapshot_detail'' (script ''snapshot_detail'' [1])) 2 =
   Some (Inr (detail_reply ''snapshot_detail'' 1), 1) \<and>
   monitor_request (\<lambda>k. 150 + int k)
     (example_check ''snapshot_detail'' (script ''snapshot_detail'' [1])) 2 =
   Some (Inr None, 1) \<and>
   is_timeout 150 (start_time (example_check ''snapshot_detail'' (script ''snapshot_detail'' [1]))) 2"
proof -
  let ?chk = "example_check ''snapshot_detail'' (script ''snapshot_detail'' [1])"
  have a: "answers ?chk 0 (detail_reply ''snapshot_detail'' 1)"
    using answers_script [of "''snapshot_detail''" 0 "[1]"] by simp
  have s: "reply_state (func ?chk) (detail_reply ''snapshot_detail'' 1) request_success"
    by (simp add: reply_state_detail_reply request_success_def)
  show ?thesis
    using success_and_failure_before_timeout [OF a, of "\<lambda>k. 150 + int k" 2] s
    by (simp add: is_timeout_def)
qed

text \<open>
  The property as first stated fails in what the monitor returns. For the same snapshot,
  whose first reply is Success and is read past the deadline, the monitor does not raise
  the timeout error, but it returns \<^verbatim>\<open>None\<close> and not the Success reply.
\<close>

theorem success_and_failure_before_timeout_counterexample:
  "answers (example_check ''snapshot_detail'' (script ''snapshot_detail'' [1])) 0
     (detail_reply ''snapshot_detail'' 1) \<and>
   reply_state ''snapshot_detail'' (detail_reply ''snapshot_detail'' 1) request_success \<and>
   is_timeout 150 (start_time (example_check ''snapshot_detail'' (script ''snapshot_detail'' [1]))) 2 \<and>
   monitor_request (\<lambda>k. 150 + int k)
     (example_check ''snapshot_detail'' (script ''snapshot_detail'' [1])) 2 =
   Some (Inr None, 1) \<and>
   None \<noteq> Some (detail_reply ''snapshot_detail'' 1)"
proof -
  let ?chk = "example_check ''snapshot_detail'' (script ''snapshot_detail'' [1])"
  have a: "answers ?chk 0 (detail_reply ''snapshot_detail'' 1)"
    using answers_script [of "''snapshot_detail''" 0 "[1]"] by simp
  have s: "reply_state ''snapshot_detail'' (detail_reply ''snapshot_detail'' 1) request_success"
    by (simp add: reply_state_detail_reply request_success_def)
  have "poll (\<lambda>k. 150 + int k) ?chk 2 0 = (LoopingCallDone (detail_reply ''snapshot_detail'' 1), Suc 0)"
    using a s by (intro poll_success) simp_all
  then have "timer_wait (\<lambda>k. 150 + int k) ?chk 2 =
      Some (Inr (detail_reply ''snapshot_detail'' 1), Suc 0)"
    by (intro timer_wait_done_at) simp_all
  then have "monitor_request (\<lambda>k. 150 + int k) ?chk 2 = Some (Inr None, Suc 0)"
    by (rule monitor_request_Done)
  with a s show ?thesis by (simp add: is_timeout_def)
qed

text \<open>
  \<^bold>\<open>C4\<close> (as amended). When the client answers the first query with a reply whose item
  status is Ongoing and the second with a reply whose item status is Failure, and the time
  read in the first run is within the timeout, the monitor raises the failure error
  (\<^verbatim>\<open>VolumeBackendAPIException\<close> with the message of \<open>detail_error_msg\<close>) and has made
  exactly 2 queries: there is no third.
\<close>

theorem monitor_ongoing_failure:
  assumes "answers chk 0 r0" and "reply_state (func chk) r0 request_ongoing"
    and "answers chk 1 r1" and "reply_state (func chk) r1 request_failure"
    and "clock 0 - start_time chk \<le> timeout"
  shows "monitor_request clock chk timeout =
    Some (Inl (VolumeBackendAPIException (Msg (detail_error_msg (func chk) 0))), 2)"
proof -
  have ongoing: "request_ongoing \<noteq> request_success" "request_ongoing \<noteq> request_failure"
    by (simp_all add: request_ongoing_def request_success_def request_failure_def)
  have p0: "poll clock chk timeout 0 = (Continue, Suc 0)"
    using poll_other [OF assms(1,2) ongoing, of clock timeout] assms(5)
    by (simp add: is_timeout_def)
  have "monitor_request clock chk timeout =
      Some (Inl (VolumeBackendAPIException (Msg (detail_error_msg (func chk) 0))), Suc 1)"
    using p0 poll_failure [OF assms(3,4), of clock timeout]
    by (intro monitor_request_raised_at) simp_all
  then show ?thesis by (simp add: numeral_2_eq_2)
qed

theorem monitor_ongoing_failure_witness:
  "monitor_request (\<lambda>k. 100 + int k)
     (example_check ''restore_detail'' (script ''restore_detail'' [2, 3, 1])) 3600 =
   Some (Inl (VolumeBackendAPIException
     (Msg ''Error while getting restore_detail details, returned code: 0.'')), 2)"
proof -
  have op: "''restore_detail'' \<in> {''snapshot_detail'', ''restore_detail'', ''clone_detail''}"
    by simp
  have "monitor_request (\<lambda>k. 100 + int k)
     (example_check ''restore_detail'' (script ''restore_detail'' [2, 3, 1])) 3600 =
     Some (Inl (VolumeBackendAPIException
       (Msg (detail_error_msg (func (example_check ''restore_detail'' (script ''restore_detail'' [2, 3, 1]))) 0))), 2)"
  proof (rule monitor_ongoing_failure
      [where ?r0.0 = "detail_reply ''restore_detail'' 2" and ?r1.0 = "detail_reply ''restore_detail'' 3"])
    show "answers (example_check ''restore_detail'' (script ''restore_detail'' [2, 3, 1])) 0
        (detail_reply ''restore_detail'' 2)"
      using answers_script [OF op, of 0 "[2, 3, 1]"] by simp
    show "answers (example_check ''restore_detail'' (script ''restore_detail'' [2, 3, 1])) 1
        (detail_reply ''restore_detail'' 3)"
      using answers_script [OF op, of 1 "[2, 3, 1]"] by simp
  qed (simp_all add: reply_state_detail_reply [OF op] request_ongoing_def request_failure_def)
  then show ?thesis
    by (simp add: detail_error_msg_def text_type_def str_nat.simps)
qed

theorem monitor_ongoing_failure_counterexample:
  "answers (example_check ''snapshot_detail'' (script ''snapshot_detail'' [2, 3])) 0
       (detail_reply ''snapshot_detail'' 2) \<and>
   answers (example_check ''snapshot_detail'' (script ''snapshot_detail'' [2, 3])) 1
       (detail_reply ''snapshot_detail'' 3) \<and>
   reply_state ''snapshot_detail'' (detail_reply ''snapshot_detail'' 2) request_ongoing \<and>
   reply_state ''snapshot_detail'' (detail_reply ''snapshot_detail'' 3) request_failure \<and>
   monitor_request (\<lambda>k. 103 + int k)
     (example_check ''snapshot_detail'' (script ''snapshot_detail'' [2, 3])) 2
     = Some (Inl (VolumeBackendAPIException (Msg ''Timeout while calling snapshot_detail '')), 1)"
proof -
  let ?chk = "example_check ''snapshot_detail'' (script ''snapshot_detail'' [2, 3])"
  have a: "answers ?chk 0 (detail_reply ''snapshot_detail'' 2)"
    "answers ?chk 1 (detail_reply ''snapshot_detail'' 3)"
    using answers_script [of "''snapshot_detail''" 0 "[2, 3]"]
      answers_script [of "''snapshot_detail''" 1 "[2, 3]"]
    by simp_all
  have s: "reply_state (func ?chk) (detail_reply ''snapshot_detail'' 2) 2"
    "reply_state ''snapshot_detail'' (detail_reply ''snapshot_detail'' 2) request_ongoing"
    "reply_state ''snapshot_detail'' (detail_reply ''snapshot_detail'' 3) request_failure"
    by (simp_all add: reply_state_detail_reply request_ongoing_def request_failure_def)
  have "poll (\<lambda>k. 103 + int k) ?chk 2 0 =
      (Raised (VolumeBackendAPIException (Msg ''Timeout while calling snapshot_detail '')), Suc 0)"
    using poll_other [OF a(1) s(1), of "\<lambda>k. 103 + int k" 2]
    by (simp add: is_timeout_def request_success_def request_failure_def timeout_msg_def)
  then have "monitor_request (\<lambda>k. 103 + int k) ?chk 2 =
      Some (Inl (VolumeBackendAPIException (Msg ''Timeout while calling snapshot_detail '')), 1)"
    by (simp add: monitor_request_first_raised)
  with a s(2,3) show ?thesis by simp
qed

text \<open>
  \<^bold>\<open>C5\<close>. When a query is answered with a reply whose transport status is not 0, the
  monitor raises the query error, which carries the operation and that status, right
  after that query: the runs before it returned (after \<open>k\<close> queries), this run makes the
  query number \<open>k + 1\<close> and no run follows. For the first query (\<open>k = 0\<close>) that is exactly 1
  query. The reply is any reply with that status: its \<^verbatim>\<open>result\<close> and its info results are
  not read.
\<close>

theorem bad_transport_status_aborts:
  assumes "\<And>j. j < k \<Longrightarrow> poll clock chk timeout j = (Continue, Suc j)"
    and "answers chk k r" and "status r \<noteq> 0"
  shows "monitor_request clock chk timeout =
    Some (Inl (VolumeBackendAPIException (Msg (detail_error_msg (func chk) (status r)))), Suc k)"
  using assms(1) poll_bad_status [OF assms(2,3)] by (rule monitor_request_raised_at)

text \<open>
  A first reply with transport status 5 whose item status reads Success: the monitor
  raises after 1 query.
\<close>

theorem bad_transport_status_aborts_witness:
  "monitor_request (\<lambda>k. 100 + int k)
     (example_check ''snapshot_detail''
        [Some ((detail_reply ''snapshot_detail'' 1)\<lparr>status := 5\<rparr>),
         Some (detail_reply ''snapshot_detail'' 1)]) 3600 =
   Some (Inl (VolumeBackendAPIException
     (Msg ''Error while getting snapshot_detail details, returned code: 5.'')), 1)"
proof -
  let ?r = "(detail_reply ''snapshot_detail'' 1)\<lparr>status := 5\<rparr>"
  let ?chk = "example_check ''snapshot_detail'' [Some ?r, Some (detail_reply ''snapshot_detail'' 1)]"
  have a: "answers ?chk 0 ?r"
    by (rule answers_example) simp_all
  have "monitor_request (\<lambda>k. 100 + int k) ?chk 3600 =
    Some (Inl (VolumeBackendAPIException (Msg (detail_error_msg (func ?chk) (status ?r)))), Suc 0)"
    using a by (intro bad_transport_status_aborts) simp_all
  then show ?thesis
    by (simp add: detail_error_msg_def text_type_def str_nat.simps)
qed

text \<open>
  \<^bold>\<open>C6\<close>. Every query is answered with a reply whose item status is Ongoing. The time
  that counts is the one elapsed since \<open>start_time\<close>, the same in every run. If run \<open>k\<close> is
  the first whose reading exceeds the timeout (\<open>clock k - start_time > timeout\<close>, and at
  most \<open>timeout\<close> in the runs before), the monitor raises the timeout error in that run,
  after \<open>k + 1\<close> queries. If no reading exceeds the timeout, the monitor never ends and
  raises nothing.
\<close>

theorem timeout_when_elapsed_exceeds:
  assumes "\<And>j. answers chk j (rs j) \<and> reply_state (func chk) (rs j) request_ongoing"
  shows "((\<forall>j<k. clock j - start_time chk \<le> timeout) \<and> clock k - start_time chk > timeout \<longrightarrow>
            monitor_request clock chk timeout =
              Some (Inl (VolumeBackendAPIException (Msg (timeout_msg (func chk)))), Suc k)) \<and>
         ((\<forall>j. clock j - start_time chk \<le> timeout) \<longrightarrow>
            monitor_request clock chk timeout = None)"
proof -
  have ongoing: "request_ongoing \<noteq> request_success" "request_ongoing \<noteq> request_failure"
    by (simp_all add: request_ongoing_def request_success_def request_failure_def)
  have run: "poll clock chk timeout j =
      (if is_timeout (clock j) (start_time chk) timeout
       then Raised (VolumeBackendAPIException (Msg (timeout_msg (func chk))))
       else Continue, Suc j)" for j
    using assms [of j] ongoing by (intro poll_other [where r = "rs j"]) simp_all
  show ?thesis
  proof (intro conjI impI)
    assume first: "(\<forall>j<k. clock j - start_time chk \<le> timeout) \<and> clock k - start_time chk > timeout"
    have "poll clock chk timeout j = (Continue, Suc j)" if "j < k" for j
    proof -
      from first that have "clock j - start_time chk \<le> timeout" by blast
      then show ?thesis using run [of j] by (simp add: is_timeout_def)
    qed
    moreover have "poll clock chk timeout k =
        (Raised (VolumeBackendAPIException (Msg (timeout_msg (func chk)))), Suc k)"
      using first run [of k] by (simp add: is_timeout_def)
    ultimately show "monitor_request clock chk timeout =
        Some (Inl (VolumeBackendAPIException (Msg (timeout_msg (func chk)))), Suc k)"
      by (rule monitor_request_raised_at)
  next
    assume never: "\<forall>j. clock j - start_time chk \<le> timeout"
    have "poll clock chk timeout j = (Continue, Suc j)" for j
    proof -
      from never have "clock j - start_time chk \<le> timeout" by blast
      then show ?thesis using run [of j] by (simp add: is_timeout_def)
    qed
    then show "monitor_request clock chk timeout = None"
      by (rule monitor_request_never)
  qed
qed

text \<open>
  A snapshot that stays Ongoing, polled once a second from the start time 100 with a
  timeout of 2 seconds: the readings are 0, 1, 2 and 3 seconds after the start, each within
  a second of the poll before it, and the monitor raises in the fourth run. With a clock
  that stands still it never ends.
\<close>

theorem timeout_when_elapsed_exceeds_witness:
  "monitor_request (\<lambda>k. 100 + int k)
     \<lparr>start_time = 100, func = ''snapshot_detail'',
      client = steady (detail_reply ''snapshot_detail'' 2),
      param = example_params ''snapshot_detail''\<rparr> 2 =
   Some (Inl (VolumeBackendAPIException (Msg ''Timeout while calling snapshot_detail '')), 4) \<and>
   monitor_request (\<lambda>k. 100)
     \<lparr>start_time = 100, func = ''snapshot_detail'',
      client = steady (detail_reply ''snapshot_detail'' 2),
      param = example_params ''snapshot_detail''\<rparr> 2 = None"
proof -
  let ?chk = "\<lparr>start_time = 100, func = ''snapshot_detail'',
      client = steady (detail_reply ''snapshot_detail'' 2),
      param = example_params ''snapshot_detail''\<rparr>"
  have a: "answers ?chk j (detail_reply ''snapshot_detail'' 2) \<and>
      reply_state (func ?chk) (detail_reply ''snapshot_detail'' 2) request_ongoing" for j
    by (simp add: steady_answers reply_state_detail_reply request_ongoing_def)
  have less: "(\<forall>j<3. 100 + int j - start_time ?chk \<le> 2) \<and> 100 + int 3 - start_time ?chk > 2"
    by auto
  have still: "\<forall>j::nat. 100 - start_time ?chk \<le> 2"
    by simp
  from timeout_when_elapsed_exceeds [of ?chk "\<lambda>_. detail_reply ''snapshot_detail'' 2" 3 "\<lambda>k. 100 + int k" 2,
      OF a] less
  have "monitor_request (\<lambda>k. 100 + int k) ?chk 2 =
      Some (Inl (VolumeBackendAPIException (Msg (timeout_msg (func ?chk)))), Suc 3)"
    by blast
  moreover
  from timeout_when_elapsed_exceeds [of ?chk "\<lambda>_. detail_reply ''snapshot_detail'' 2" 0 "\<lambda>k. 100" 2,
      OF a] still
  have "monitor_request (\<lambda>k. 100) ?chk 2 = None"
    by blast
  ultimately show ?thesis
    by (simp add: timeout_msg_def)
qed

text \<open>
  \<^bold>\<open>C7\<close>. For an operation that is none of \<^verbatim>\<open>snapshot_detail\<close>, \<^verbatim>\<open>restore_detail\<close> and
  \<^verbatim>\<open>clone_detail\<close>, the monitor raises the unknown-operation error and has made no query:
  \<^verbatim>\<open>_call_api\<close> raises before it calls the client.
\<close>

theorem unknown_operation_no_query:
  assumes "func chk \<notin> {''snapshot_detail'', ''restore_detail'', ''clone_detail''}"
  shows "monitor_request clock chk timeout =
    Some (Inl (VolumeBackendAPIException (MsgTuple ''Unknown operation %s.'' (func chk))), 0)"
proof -
  from assms have "poll clock chk timeout 0 =
      (Raised (VolumeBackendAPIException (MsgTuple ''Unknown operation %s.'' (func chk))), 0)"
    by (intro poll_unknown) simp_all
  then show ?thesis
    by (rule monitor_request_first_raised)
qed

theorem unknown_operation_no_query_witness:
  "monitor_request (\<lambda>k. 100 + int k)
     (example_check ''volume_detail'' (script ''volume_detail'' [1])) 3600 =
   Some (Inl (VolumeBackendAPIException (MsgTuple ''Unknown operation %s.'' ''volume_detail'')), 0)"
  using unknown_operation_no_query
    [of "example_check ''volume_detail'' (script ''volume_detail'' [1])" "\<lambda>k. 100 + int k" 3600]
  by simp

text \<open>
  \<^bold>\<open>C8\<close>. When the client returns \<^verbatim>\<open>None\<close>, \<^verbatim>\<open>_retry_get_detail\<close> subscripts it
  (\<^verbatim>\<open>reply['status']\<close>) before it calls \<^verbatim>\<open>_get_item_status\<close>, so the monitor ends at once, after
  that query, but with Python's \<^verbatim>\<open>TypeError\<close>; the error that \<^verbatim>\<open>_get_item_status\<close> has for a
  \<^verbatim>\<open>None\<close> reply, \<^verbatim>\<open>Call returned a None object\<close>, is never raised by the monitor, whatever
  the client, the clock and the timeout are.
\<close>

theorem none_reply_raises_type_error:
  "monitor_request (\<lambda>k. 100 + int k) (example_check ''snapshot_detail'' [None]) 3600 =
     Some (Inl TypeError, 1) \<and>
   get_item_status ''snapshot_detail'' None =
     Inl (VolumeBackendAPIException (Msg ''Call returned a None object'')) \<and>
   monitor_request clock chk timeout \<noteq>
     Some (Inl (VolumeBackendAPIException (Msg ''Call returned a None object'')), n)"
proof -
  have "call_api (client (example_check ''snapshot_detail'' [None]))
      (func (example_check ''snapshot_detail'' [None]))
      (param (example_check ''snapshot_detail'' [None])) 0 = (Inr None, Suc 0)"
    by (simp add: call_api_def example_check_def example_params_def scripted_def)
  then have "poll (\<lambda>k. 100 + int k) (example_check ''snapshot_detail'' [None]) 3600 0 =
      (Raised TypeError, Suc 0)"
    by (rule poll_None)
  then have run: "monitor_request (\<lambda>k. 100 + int k) (example_check ''snapshot_detail'' [None]) 3600 =
      Some (Inl TypeError, Suc 0)"
    by (rule monitor_request_first_raised)
  have never: "monitor_request clock chk timeout \<noteq>
      Some (Inl (VolumeBackendAPIException (Msg ''Call returned a None object'')), n)"
  proof
    assume "monitor_request clock chk timeout =
      Some (Inl (VolumeBackendAPIException (Msg ''Call returned a None object'')), n)"
    from monitor_request_error_run [OF this]
    obtain k where "poll clock chk timeout k =
        (Raised (VolumeBackendAPIException (Msg ''Call returned a None object'')), n)"
      by (elim exE)
    from poll_error_data [OF this] show False
      by (auto simp: detail_error_msg_def timeout_msg_def)
  qed
  from run never show ?thesis by (simp add: get_item_status_def)
qed

text \<open>
  \<^bold>\<open>C9\<close> (as amended). Every \<^verbatim>\<open>VolumeBackendAPIException\<close> that the monitor raises names the
  operation: its data is the pair of \<^verbatim>\<open>Unknown operation %s.\<close> and the operation, or the
  message \<^verbatim>\<open>Error while getting <operation> details, returned code: <code>.\<close>, or the
  message \<^verbatim>\<open>Timeout while calling <operation> \<close>. When the last reply has a transport status
  other than 0, the code in the message is that status. The timeout message is made of
  the operation alone: neither the elapsed time nor the timeout is in it. (By
  \<open>timeout_msg_inj\<close> and \<open>detail_error_msg_inj\<close> the operation and the code can be read back
  from the messages.)
\<close>

theorem error_data_names_operation:
  assumes "monitor_request clock chk timeout = Some (Inl (VolumeBackendAPIException d), n)"
  shows "(d = MsgTuple ''Unknown operation %s.'' (func chk) \<or>
          (\<exists>st. d = Msg (detail_error_msg (func chk) st)) \<or>
          d = Msg (timeout_msg (func chk))) \<and>
         (\<forall>r. 0 < n \<and> answers chk (n - 1) r \<and> status r \<noteq> 0 \<longrightarrow>
            d = Msg (detail_error_msg (func chk) (status r)))"
proof -
  from monitor_request_error_run [OF assms]
  obtain k where run: "poll clock chk timeout k = (Raised (VolumeBackendAPIException d), n)"
    by (elim exE)
  have "d = Msg (detail_error_msg (func chk) (status r))"
    if r: "0 < n \<and> answers chk (n - 1) r \<and> status r \<noteq> 0" for r
  proof -
    from r have a: "answers chk (n - 1) r" by simp
    from answers_count [OF a, of clock timeout k] run have "n = Suc k" by simp
    with a have "answers chk k r" by simp
    from poll_bad_status [OF this, of clock timeout] r run show ?thesis by simp
  qed
  with poll_error_data [OF run] show ?thesis by blast
qed

text \<open>
  A first reply with the transport status 5: the code of the message is 5.
\<close>

theorem error_data_names_operation_witness:
  "monitor_request (\<lambda>k. 100 + int k)
     (example_check ''snapshot_detail''
        [Some ((detail_reply ''snapshot_detail'' 1)\<lparr>status := 5\<rparr>)]) 3600 =
   Some (Inl (VolumeBackendAPIException
     (Msg ''Error while getting snapshot_detail details, returned code: 5.'')), 1) \<and>
   Msg ''Error while getting snapshot_detail details, returned code: 5.'' =
     Msg (detail_error_msg ''snapshot_detail'' 5)"
proof -
  let ?r = "(detail_reply ''snapshot_detail'' 1)\<lparr>status := 5\<rparr>"
  let ?chk = "example_check ''snapshot_detail'' [Some ?r]"
  let ?m = "''Error while getting snapshot_detail details, returned code: 5.''"
  have a: "answers ?chk 0 ?r"
    by (rule answers_example) simp_all
  have "poll (\<lambda>k. 100 + int k) ?chk 3600 0 =
      (Raised (VolumeBackendAPIException (Msg (detail_error_msg (func ?chk) (status ?r)))), Suc 0)"
    using a by (intro poll_bad_status) simp_all
  then have "monitor_request (\<lambda>k. 100 + int k) ?chk 3600 =
      Some (Inl (VolumeBackendAPIException (Msg (detail_error_msg (func ?chk) (status ?r)))), Suc 0)"
    by (rule monitor_request_first_raised)
  then have h: "monitor_request (\<lambda>k. 100 + int k) ?chk 3600 =
      Some (Inl (VolumeBackendAPIException (Msg ?m)), 1)"
    by (simp add: detail_error_msg_def text_type_def str_nat.simps)
  from error_data_names_operation [OF h]
  have "0 < (1::nat) \<and> answers ?chk (1 - 1) ?r \<and> status ?r \<noteq> 0 \<longrightarrow>
      Msg ?m = Msg (detail_error_msg (func ?chk) (status ?r))"
    by blast
  with a have "Msg ?m = Msg (detail_error_msg ''snapshot_detail'' 5)"
    by simp
  with h show ?thesis by blast
qed

text \<open>
  The elapsed time is not in the error. A snapshot that is Ongoing, with a timeout of 5
  seconds from the start time 100: read at time 110 and read at time 120 the monitor raises
  the same error value, though 10 seconds had elapsed in one run and 20 in the other.
\<close>

theorem error_data_names_operation_counterexample:
  "monitor_request (\<lambda>k. 110)
     (example_check ''snapshot_detail'' (script ''snapshot_detail'' [2])) 5 =
   Some (Inl (VolumeBackendAPIException (Msg ''Timeout while calling snapshot_detail '')), 1) \<and>
   monitor_request (\<lambda>k. 120)
     (example_check ''snapshot_detail'' (script ''snapshot_detail'' [2])) 5 =
   Some (Inl (VolumeBackendAPIException (Msg ''Timeout while calling snapshot_detail '')), 1) \<and>
   (110::int) - start_time (example_check ''snapshot_detail'' (script ''snapshot_detail'' [2])) \<noteq>
     120 - start_time (example_check ''snapshot_detail'' (script ''snapshot_detail'' [2]))"
proof -
  let ?chk = "example_check ''snapshot_detail'' (script ''snapshot_detail'' [2])"
  have a: "answers ?chk 0 (detail_reply ''snapshot_detail'' 2)"
    using answers_script [of "''snapshot_detail''" 0 "[2]"] by simp
  have s: "reply_state (func ?chk) (detail_reply ''snapshot_detail'' 2) 2"
    by (simp add: reply_state_detail_reply)
  have run: "poll (\<lambda>k. t) ?chk 5 0 =
      (Raised (VolumeBackendAPIException (Msg ''Timeout while calling snapshot_detail '')), Suc 0)"
    if "t - 100 > 5" for t :: int
    using poll_other [OF a s, of "\<lambda>k. t" 5] that
    by (simp add: is_timeout_def request_success_def request_failure_def timeout_msg_def)
  have "monitor_request (\<lambda>k. t) ?chk 5 =
      Some (Inl (VolumeBackendAPIException (Msg ''Timeout while calling snapshot_detail '')), 1)"
    if "t - 100 > 5" for t :: int
    using run [OF that] by (simp add: monitor_request_first_raised)
  from this [of 110] this [of 120] show ?thesis by simp
qed

text \<open>
  \<^bold>\<open>C10\<close>. A run whose reply was accepted and whose item status is neither Success (1)
  nor Failure (3), whatever number it is, returns without ending the timer, which then
  goes on to the next run; unless the time read in that run exceeds the timeout, in which
  case the run raises the timeout error.
\<close>

theorem other_status_keeps_polling:
  assumes "answers chk k r" and "reply_state (func chk) r code"
    and "code \<noteq> request_success" and "code \<noteq> request_failure"
  shows "poll clock chk timeout k =
      (if clock k - start_time chk > timeout
       then Raised (VolumeBackendAPIException (Msg (timeout_msg (func chk))))
       else Continue, Suc k) \<and>
    looping_call (poll clock chk timeout) k =
      (if clock k - start_time chk > timeout
       then Some (Inl (VolumeBackendAPIException (Msg (timeout_msg (func chk)))), Suc k)
       else looping_call (poll clock chk timeout) (Suc k))"
proof -
  have run: "poll clock chk timeout k =
      (if clock k - start_time chk > timeout
       then Raised (VolumeBackendAPIException (Msg (timeout_msg (func chk))))
       else Continue, Suc k)"
    using poll_other [OF assms, of clock timeout] by (simp add: is_timeout_def)
  show ?thesis
  proof (cases "clock k - start_time chk > timeout")
    case True
    with run show ?thesis by (simp add: looping_call_Raised)
  next
    case False
    with run show ?thesis by (simp add: looping_call_Continue)
  qed
qed

text \<open>
  A clone whose \<^verbatim>\<open>result\<close> is 7, outside the three codes, and then 1: within the timeout
  the first run returns and the second ends the monitor with its reply; read 5 seconds after
  the start with a timeout of 2 seconds, the first run raises the timeout error.
\<close>

theorem other_status_keeps_polling_witness:
  "poll (\<lambda>k. 100 + int k) (example_check ''clone_detail'' (script ''clone_detail'' [7, 1])) 3600 0 =
     (Continue, 1) \<and>
   poll (\<lambda>k. 105 + int k) (example_check ''clone_detail'' (script ''clone_detail'' [7, 1])) 2 0 =
     (Raised (VolumeBackendAPIException (Msg ''Timeout while calling clone_detail '')), 1)"
proof -
  let ?chk = "example_check ''clone_detail'' (script ''clone_detail'' [7, 1])"
  have a: "answers ?chk 0 (detail_reply ''clone_detail'' 7)"
    using answers_script [of "''clone_detail''" 0 "[7, 1]"] by simp
  have s: "reply_state (func ?chk) (detail_reply ''clone_detail'' 7) 7"
    by (simp add: reply_state_detail_reply)
  have c: "(7::int) \<noteq> request_success" "(7::int) \<noteq> request_failure"
    by (simp_all add: request_success_def request_failure_def)
  show ?thesis
    using other_status_keeps_polling [OF a s c, of "\<lambda>k. 100 + int k" 3600]
      other_status_keeps_polling [OF a s c, of "\<lambda>k. 105 + int k" 2]
    by (simp add: timeout_msg_def)
qed

end
